theory Spec2Isabelle
  imports Complex_Main
begin

section \<open>Numbers\<close>

text \<open>
  The program is TypeScript; every coordinate, angle, length and colour channel is a
  \<^verbatim>\<open>number\<close>, an IEEE double. Two readings of \<^verbatim>\<open>number\<close> are used.

  \<^bold>\<open>The real reading\<close> (the boid code): a \<^verbatim>\<open>number\<close> is a real. Arithmetic is exact;
  rounding, the infinities and NaN are not part of this reading, and the two zeros
  \<open>+0\<close> and \<open>-0\<close> are one. \<^verbatim>\<open>Math.PI\<close> is \<^term>\<open>pi\<close>; \<^verbatim>\<open>Math.sqrt\<close>, \<^verbatim>\<open>Math.cos\<close>,
  \<^verbatim>\<open>Math.sin\<close> and \<^verbatim>\<open>Math.abs\<close> are the functions of the same name on the reals.

  \<^verbatim>\<open>Math.atan2(y, x)\<close> in the real reading is the angle of the point \<open>(x, y)\<close>, in
  \<open>(-pi, pi]\<close>, and \<open>0\<close> at the origin: every zero is read as \<open>+0\<close>.
\<close>

definition atan2 :: "real \<Rightarrow> real \<Rightarrow> real" where
  "atan2 py px =
     (if 0 < px then arctan (py / px)
      else if px < 0 then (if 0 \<le> py then arctan (py / px) + pi else arctan (py / px) - pi)
      else if 0 < py then pi / 2
      else if py < 0 then - (pi / 2)
      else 0)"

text \<open>
  \<^bold>\<open>The IEEE reading\<close> (the parser of colours, and the direction and magnitude of a
  vector): a \<^verbatim>\<open>number\<close> is NaN, an infinity, the negative zero, or \<open>Num v\<close> for a real
  \<open>v\<close>; \<open>Num 0\<close> is the positive zero.
\<close>

datatype number = NaN | Num real | NegZero | Infinity | NegInfinity

definition is_finite :: "number \<Rightarrow> bool" where
  "is_finite p = (case p of Num v \<Rightarrow> True | NegZero \<Rightarrow> True | _ \<Rightarrow> False)"

definition value_of :: "number \<Rightarrow> real" where
  "value_of p = (case p of Num v \<Rightarrow> v | _ \<Rightarrow> 0)"

definition is_zero :: "number \<Rightarrow> bool" where
  "is_zero p = (p = Num 0 \<or> p = NegZero)"

definition is_negative :: "number \<Rightarrow> bool" where
  "is_negative p =
     (case p of Num v \<Rightarrow> v < 0 | NegZero \<Rightarrow> True | NegInfinity \<Rightarrow> True | _ \<Rightarrow> False)"

text \<open>
  The double nearest to a real number, ties to the even significand: a double is
  \<open>m * 2 ^ e\<close> with \<open>m\<close> below \<open>2 ^ 53\<close> and \<open>e\<close> from \<open>- 1074\<close> up; from \<open>2 ^ 1024\<close> on the
  rounded value is an infinity. This is how the parser turns the text of a numeral into
  a \<^verbatim>\<open>number\<close>.
\<close>

definition to_double :: "real \<Rightarrow> number" where
  "to_double v =
     (if v = 0 then Num 0
      else
        (let e = max (\<lfloor>log 2 \<bar>v\<bar>\<rfloor> - 52) (- 1074);
             s = \<bar>v\<bar> / 2 powr real_of_int e;
             f = \<lfloor>s\<rfloor>;
             m = (if s - real_of_int f < 1 / 2 then f
                  else if 1 / 2 < s - real_of_int f then f + 1
                  else if even f then f else f + 1);
             d = real_of_int m * 2 powr real_of_int e
         in if 2 ^ 1024 \<le> d then (if v < 0 then NegInfinity else Infinity)
            else if d = 0 then (if v < 0 then NegZero else Num 0)
            else Num (if v < 0 then - d else d)))"

text \<open>
  \<^verbatim>\<open>Math.atan2\<close>, \<^verbatim>\<open>Math.cos\<close>, \<^verbatim>\<open>Math.sin\<close> and the product \<^verbatim>\<open>*\<close> in the IEEE reading,
  with the special values the language standard lists. On two finite values that are
  not the negative zero \<^verbatim>\<open>Math.atan2\<close> is the function of the real reading. \<^verbatim>\<open>Math.PI\<close>
  is read as \<^term>\<open>pi\<close>, and the cosine, the sine and the product of finite values are
  exact (not rounded).
\<close>

fun Math_atan2 :: "number \<Rightarrow> number \<Rightarrow> number" where
  "Math_atan2 NaN px = NaN"
| "Math_atan2 py NaN = NaN"
| "Math_atan2 Infinity Infinity = Num (pi / 4)"
| "Math_atan2 Infinity NegInfinity = Num (3 * pi / 4)"
| "Math_atan2 Infinity px = Num (pi / 2)"
| "Math_atan2 NegInfinity Infinity = Num (- (pi / 4))"
| "Math_atan2 NegInfinity NegInfinity = Num (- (3 * pi / 4))"
| "Math_atan2 NegInfinity px = Num (- (pi / 2))"
| "Math_atan2 (Num py) Infinity = (if 0 \<le> py then Num 0 else NegZero)"
| "Math_atan2 (Num py) NegInfinity = (if 0 \<le> py then Num pi else Num (- pi))"
| "Math_atan2 NegZero Infinity = NegZero"
| "Math_atan2 NegZero NegInfinity = Num (- pi)"
| "Math_atan2 (Num py) (Num px) = Num (atan2 py px)"
| "Math_atan2 (Num py) NegZero = (if py = 0 then Num pi else Num (atan2 py 0))"
| "Math_atan2 NegZero (Num px) = (if px < 0 then Num (- pi) else NegZero)"
| "Math_atan2 NegZero NegZero = Num (- pi)"

fun Math_cos :: "number \<Rightarrow> number" where
  "Math_cos (Num v) = Num (cos v)"
| "Math_cos NegZero = Num 1"
| "Math_cos p = NaN"

fun Math_sin :: "number \<Rightarrow> number" where
  "Math_sin (Num v) = Num (sin v)"
| "Math_sin NegZero = NegZero"
| "Math_sin p = NaN"

definition number_times :: "number \<Rightarrow> number \<Rightarrow> number" where
  "number_times p q =
     (if p = NaN \<or> q = NaN then NaN
      else if \<not> is_finite p \<or> \<not> is_finite q then
        (if is_zero p \<or> is_zero q then NaN
         else if is_negative p = is_negative q then Infinity else NegInfinity)
      else if value_of p * value_of q = 0 then
        (if is_negative p = is_negative q then Num 0 else NegZero)
      else Num (value_of p * value_of q))"

section \<open>Vector2\<close>

text \<open>\<^verbatim>\<open>src/utils/Vector2.ts\<close>: a mutable pair of numbers, in either reading of
  \<^verbatim>\<open>number\<close>. A method that mutates \<^verbatim>\<open>this\<close> returns the vector after the call.\<close>

record 'n Vector2 =
  x :: 'n
  y :: 'n

text \<open>The methods the boid code calls, in the real reading.\<close>

definition getDirection :: "real Vector2 \<Rightarrow> real" where
  "getDirection this = atan2 (y this) (x this)"

definition getMagnitude :: "real Vector2 \<Rightarrow> real" where
  "getMagnitude this = sqrt (x this * x this + y this * y this)"

definition addAndMutate :: "real Vector2 \<Rightarrow> real Vector2 \<Rightarrow> real Vector2" where
  "addAndMutate v this = this\<lparr>x := x this + x v, y := y this + y v\<rparr>"

definition multiply :: "real \<Rightarrow> real Vector2 \<Rightarrow> real Vector2" where
  "multiply scalar this = \<lparr>x = x this * scalar, y = y this * scalar\<rparr>"

text \<open>
  \<^verbatim>\<open>getDirection\<close> and \<^verbatim>\<open>setMagnitude\<close> in the IEEE reading: at a zero vector the sign
  of each zero decides the direction, and with it what \<^verbatim>\<open>setMagnitude\<close> writes.
\<close>

definition getDirection_ieee :: "number Vector2 \<Rightarrow> number" where
  "getDirection_ieee this = Math_atan2 (y this) (x this)"

definition setMagnitude :: "number \<Rightarrow> number Vector2 \<Rightarrow> number Vector2" where
  "setMagnitude magnitude this =
     (let direction = getDirection_ieee this
      in this\<lparr>x := number_times (Math_cos direction) magnitude,
              y := number_times (Math_sin direction) magnitude\<rparr>)"

text \<open>The real reading of a vector of finite numbers.\<close>

definition real_reading :: "number Vector2 \<Rightarrow> real Vector2" where
  "real_reading v = \<lparr>x = value_of (x v), y = value_of (y v)\<rparr>"

section \<open>Strings\<close>

text \<open>
  A string is a list of characters; a character stands for a code unit below 256.
  The library functions the colour parser calls are written out here as the language
  standard defines them, on that alphabet.
\<close>

definition is_digit :: "char \<Rightarrow> bool" where
  "is_digit ch = (ch \<in> set ''0123456789'')"

text \<open>White space (what \<^verbatim>\<open>trim\<close>, \<^verbatim>\<open>\s\<close>, \<^verbatim>\<open>parseInt\<close> and \<^verbatim>\<open>parseFloat\<close> skip):
  tab, line feed, vertical tab, form feed, carriage return, space, no-break space.\<close>

definition is_space :: "char \<Rightarrow> bool" where
  "is_space ch = ((of_char ch :: nat) \<in> set [9, 10, 11, 12, 13, 32, 160])"

text \<open>The characters the pattern's \<^verbatim>\<open>.\<close> does not match.\<close>

definition is_line_terminator :: "char \<Rightarrow> bool" where
  "is_line_terminator ch = ((of_char ch :: nat) \<in> set [10, 13])"

definition trim :: "string \<Rightarrow> string" where
  "trim s = rev (dropWhile is_space (rev (dropWhile is_space s)))"

text \<open>\<^verbatim>\<open>s.indexOf(pat)\<close>: the first position where \<open>pat\<close> starts, or \<open>-1\<close>.\<close>

fun indexOf_from :: "nat \<Rightarrow> string \<Rightarrow> string \<Rightarrow> int" where
  "indexOf_from i pat [] = (if pat = [] then int i else - 1)"
| "indexOf_from i pat (ch # s) =
     (if take (length pat) (ch # s) = pat then int i else indexOf_from (Suc i) pat s)"

definition indexOf :: "string \<Rightarrow> string \<Rightarrow> int" where
  "indexOf pat s = indexOf_from 0 pat s"

text \<open>\<^verbatim>\<open>s.substr(start)\<close> and \<^verbatim>\<open>s.substr(start, length)\<close>, for a start that is not
  negative (the parser passes \<open>indexOf + 1\<close> where \<open>indexOf\<close> is \<open>0\<close>, and \<open>0\<close>, \<open>2\<close>, \<open>4\<close>).\<close>

definition substr_from :: "nat \<Rightarrow> string \<Rightarrow> string" where
  "substr_from start s = drop start s"

definition substr :: "nat \<Rightarrow> nat \<Rightarrow> string \<Rightarrow> string" where
  "substr start len s = take len (drop start s)"

text \<open>The value of a digit in a radix up to 36, if the character is one.\<close>

definition digit_value :: "char \<Rightarrow> nat option" where
  "digit_value ch =
     (let n = (of_char ch :: nat)
      in if 48 \<le> n \<and> n \<le> 57 then Some (n - 48)
         else if 97 \<le> n \<and> n \<le> 122 then Some (n - 87)
         else if 65 \<le> n \<and> n \<le> 90 then Some (n - 55)
         else None)"

definition is_radix_digit :: "nat \<Rightarrow> char \<Rightarrow> bool" where
  "is_radix_digit radix ch = (case digit_value ch of None \<Rightarrow> False | Some v \<Rightarrow> v < radix)"

definition digits_value :: "nat \<Rightarrow> string \<Rightarrow> nat" where
  "digits_value radix ds = foldl (\<lambda>acc ch. acc * radix + (case digit_value ch of None \<Rightarrow> 0 | Some v \<Rightarrow> v)) 0 ds"

text \<open>
  \<^verbatim>\<open>parseInt(s, radix)\<close> for a radix from 2 to 36 (the parser passes 16 and 10): leading
  white space, a sign, for radix 16 an \<^verbatim>\<open>0x\<close> prefix, then the longest run of digits of
  the radix; NaN when that run is empty, and otherwise the double nearest to the integer
  the digits write (every digit is read).
\<close>

definition parseInt :: "string \<Rightarrow> nat \<Rightarrow> number" where
  "parseInt s radix =
     (let t = dropWhile is_space s;
          neg = (take 1 t = ''-'');
          u = (if take 1 t = ''-'' \<or> take 1 t = ''+'' then drop 1 t else t);
          v = (if radix = 16 \<and> (take 2 u = ''0x'' \<or> take 2 u = ''0X'') then drop 2 u else u);
          z = takeWhile (is_radix_digit radix) v
      in if z = [] then NaN
         else if digits_value radix z = 0 then (if neg then NegZero else Num 0)
         else to_double (if neg then - real (digits_value radix z)
                         else real (digits_value radix z)))"

text \<open>
  \<^verbatim>\<open>parseFloat(s)\<close>: leading white space, a sign, then the longest prefix that is a
  decimal literal: \<^verbatim>\<open>Infinity\<close>, or digits with an optional fraction and an optional
  exponent (an exponent counts only when it has a digit); NaN when there is no digit, and
  otherwise the double nearest to the value of the literal.
\<close>

definition parseFloat :: "string \<Rightarrow> number" where
  "parseFloat s =
     (let t = dropWhile is_space s;
          neg = (take 1 t = ''-'');
          u = (if take 1 t = ''-'' \<or> take 1 t = ''+'' then drop 1 t else t);
          ip = takeWhile is_digit u;
          u1 = dropWhile is_digit u;
          fp = (if take 1 u1 = ''.'' then takeWhile is_digit (drop 1 u1) else []);
          u2 = (if take 1 u1 = ''.'' then dropWhile is_digit (drop 1 u1) else u1);
          w = drop 1 u2;
          eneg = (take 1 w = ''-'');
          w1 = (if take 1 w = ''-'' \<or> take 1 w = ''+'' then drop 1 w else w);
          ed = (if take 1 u2 = ''e'' \<or> take 1 u2 = ''E'' then takeWhile is_digit w1 else []);
          m = real (digits_value 10 ip) + real (digits_value 10 fp) / 10 ^ length fp;
          v = (if eneg then m / 10 ^ digits_value 10 ed else m * 10 ^ digits_value 10 ed)
      in if take 8 u = ''Infinity'' then (if neg then NegInfinity else Infinity)
         else if ip = [] \<and> fp = [] then NaN
         else if v = 0 then (if neg then NegZero else Num 0)
         else to_double (if neg then - v else v))"

section \<open>The colour pattern\<close>

text \<open>
  \<^verbatim>\<open>Color.RGB_COLOR_REGEX = /\((\d+),\s*(\d+),\s*(\d+)(,\s*(\d*.\d*))?\)/\<close>

  The matcher is a backtracking one, as the language defines it: a quantifier first takes
  as many characters as it can and gives them back one at a time while what follows fails.
  \<open>backtrack lo f n\<close> tries \<open>f\<close> on the counts \<open>n\<close>, \<open>n - 1\<close>, ... down to \<open>lo\<close> and returns
  the first result.
\<close>

fun backtrack :: "nat \<Rightarrow> (nat \<Rightarrow> 'r option) \<Rightarrow> nat \<Rightarrow> 'r option" where
  "backtrack lo f 0 = (if lo = 0 then f 0 else None)"
| "backtrack lo f (Suc n) =
     (if Suc n < lo then None
      else (case f (Suc n) of Some res \<Rightarrow> Some res | None \<Rightarrow> backtrack lo f n))"

text \<open>\<open>greedy p lo t k\<close>: at least \<open>lo\<close> characters satisfying \<open>p\<close> at the front of \<open>t\<close>,
  then \<open>k\<close> on the text taken and the text left.\<close>

definition greedy :: "(char \<Rightarrow> bool) \<Rightarrow> nat \<Rightarrow> string \<Rightarrow> (string \<Rightarrow> string \<Rightarrow> 'r option) \<Rightarrow> 'r option" where
  "greedy p lo t k = backtrack lo (\<lambda>n. k (take n t) (drop n t)) (length (takeWhile p t))"

text \<open>The optional fourth group with the closing parenthesis after it,
  \<^verbatim>\<open>,\s*(\d*.\d*)\)\<close>: the text of capture 5.\<close>

definition alpha_group :: "string \<Rightarrow> string option" where
  "alpha_group t =
     (case t of
        [] \<Rightarrow> None
      | ch # t1 \<Rightarrow>
          if ch \<noteq> CHR '','' then None
          else greedy is_space 0 t1 (\<lambda>sp t2.
                 greedy is_digit 0 t2 (\<lambda>e1 t3.
                   (case t3 of
                      [] \<Rightarrow> None
                    | dot # t4 \<Rightarrow>
                        if is_line_terminator dot then None
                        else greedy is_digit 0 t4 (\<lambda>e2 t5.
                               if take 1 t5 = '')'' then Some (e1 @ dot # e2) else None)))))"

text \<open>The pattern at the front of \<open>t\<close>: captures 1, 2, 3 and 5 (capture 5 is undefined
  when the fourth group does not take part in the match).\<close>

definition match_here :: "string \<Rightarrow> (string \<times> string \<times> string \<times> string option) option" where
  "match_here t =
     (if take 1 t \<noteq> ''('' then None
      else greedy is_digit 1 (drop 1 t) (\<lambda>d1 t2.
             if take 1 t2 \<noteq> '','' then None
             else greedy is_space 0 (drop 1 t2) (\<lambda>sp1 t3.
                    greedy is_digit 1 t3 (\<lambda>d2 t4.
                      if take 1 t4 \<noteq> '','' then None
                      else greedy is_space 0 (drop 1 t4) (\<lambda>sp2 t5.
                             greedy is_digit 1 t5 (\<lambda>d3 t6.
                               (case alpha_group t6 of
                                  Some al \<Rightarrow> Some (d1, d2, d3, Some al)
                                | None \<Rightarrow>
                                    if take 1 t6 = '')'' then Some (d1, d2, d3, None)
                                    else None)))))))"

text \<open>\<^verbatim>\<open>RGB_COLOR_REGEX.exec(s)\<close>: the pattern is not anchored, so the match is the one
  at the first position that has one; \<open>None\<close> is \<^verbatim>\<open>null\<close>.\<close>

fun RGB_COLOR_REGEX_exec :: "string \<Rightarrow> (string \<times> string \<times> string \<times> string option) option" where
  "RGB_COLOR_REGEX_exec [] = match_here []"
| "RGB_COLOR_REGEX_exec (ch # s) =
     (case match_here (ch # s) of
        Some res \<Rightarrow> Some res
      | None \<Rightarrow> RGB_COLOR_REGEX_exec s)"

section \<open>Color\<close>

text \<open>The unnamed source file that declares \<^verbatim>\<open>class Color\<close>. A channel is a
  \<^verbatim>\<open>number | undefined\<close>; \<open>None\<close> is \<^verbatim>\<open>undefined\<close>.\<close>

record Color =
  r :: "number option"
  g :: "number option"
  b :: "number option"
  a :: "number option"

text \<open>\<^verbatim>\<open>v || d\<close> on an optional number: \<^verbatim>\<open>undefined\<close>, the two zeros and NaN are
  falsy.\<close>

definition or_default :: "number option \<Rightarrow> number \<Rightarrow> number" where
  "or_default v d =
     (case v of
        None \<Rightarrow> d
      | Some NaN \<Rightarrow> d
      | Some (Num q) \<Rightarrow> (if q = 0 then d else Num q)
      | Some NegZero \<Rightarrow> d
      | Some Infinity \<Rightarrow> Infinity
      | Some NegInfinity \<Rightarrow> NegInfinity)"

text \<open>A fresh object: no field has been assigned.\<close>

definition Color_unset :: Color where
  "Color_unset = \<lparr>r = None, g = None, b = None, a = None\<rparr>"

text \<open>The first argument of the constructor is a string or an optional number.\<close>

datatype color_arg = Str string | Chan "number option"

definition Color_constructor ::
  "color_arg \<Rightarrow> number option \<Rightarrow> number option \<Rightarrow> number option \<Rightarrow> Color" where
  "Color_constructor r0 g0 b0 a0 =
     (case r0 of
        Str s0 \<Rightarrow>
          (let s = trim s0
           in if indexOf ''#'' s = 0 then
                (let h = substr_from (nat (indexOf ''#'' s + 1)) s
                 in Color_unset
                      \<lparr>r := Some (parseInt (substr 0 2 h) 16),
                       g := Some (parseInt (substr 2 2 h) 16),
                       b := Some (parseInt (substr 4 2 h) 16)\<rparr>)
              else if indexOf ''rgb'' s = 0 then
                (case RGB_COLOR_REGEX_exec s of
                   None \<Rightarrow> Color_unset
                 | Some (res1, res2, res3, res5) \<Rightarrow>
                     Color_unset
                       \<lparr>r := Some (parseInt res1 10),
                        g := Some (parseInt res2 10),
                        b := Some (parseInt res3 10),
                        a := Some (case res5 of
                                     None \<Rightarrow> Num 1
                                   | Some al \<Rightarrow> if al = [] then Num 1 else parseFloat al)\<rparr>)
              else Color_unset)
      | Chan v \<Rightarrow> \<lparr>r = v, g = g0, b = b0, a = Some (or_default a0 (Num 1))\<rparr>)"

definition setRGB :: "number \<Rightarrow> number \<Rightarrow> number \<Rightarrow> number option \<Rightarrow> Color \<Rightarrow> Color" where
  "setRGB r0 g0 b0 a0 this =
     this\<lparr>r := Some r0, g := Some g0, b := Some b0, a := Some (or_default a0 (Num 1))\<rparr>"

section \<open>The engine\<close>

text \<open>
  The unnamed source file that holds the drawing layer. The boid code reads its two
  module variables \<^verbatim>\<open>CANVAS_WIDTH\<close> and \<^verbatim>\<open>CANVAS_HEIGHT\<close> and calls \<^verbatim>\<open>arc\<close>, which
  draws on the canvas. The canvas is kept as the list of the calls made so far. The
  module variable \<^verbatim>\<open>c\<close> of \<^verbatim>\<open>src/index.ts\<close>, the indicator colour, is part of the same
  state.
\<close>

datatype draw_call = Arc "real Vector2" real Color real real bool

record world =
  CANVAS_WIDTH :: real
  CANVAS_HEIGHT :: real
  c :: Color
  drawn :: "draw_call list"

definition arc :: "real Vector2 \<Rightarrow> real \<Rightarrow> Color \<Rightarrow> real \<Rightarrow> real \<Rightarrow> bool \<Rightarrow> world \<Rightarrow> world" where
  "arc l radius col startAngle endAngle fill w =
     w\<lparr>drawn := drawn w @ [Arc l radius col startAngle endAngle fill]\<rparr>"

text \<open>The state after \<^verbatim>\<open>let c = new Color("#ff0000")\<close> and
  \<^verbatim>\<open>background(600, 600, new Color("#eeeeee"))\<close>, with nothing drawn yet.\<close>

definition world_init :: world where
  "world_init =
     \<lparr>CANVAS_WIDTH = 600, CANVAS_HEIGHT = 600,
      c = Color_constructor (Str ''#ff0000'') None None None,
      drawn = []\<rparr>"

section \<open>Boid\<close>

text \<open>\<^verbatim>\<open>src/index.ts\<close>. The location and the direction of a boid are two vectors of
  its own (the program builds each with \<^verbatim>\<open>new Vector2\<close>).\<close>

record Boid =
  loc :: "real Vector2"
  dir :: "real Vector2"
  speed :: real
  color :: Color
  perceptionAngle :: real

text \<open>The local function \<^verbatim>\<open>between(a, b, x)\<close> of \<^verbatim>\<open>checkIntersection\<close>.\<close>

definition between :: "real \<Rightarrow> real \<Rightarrow> real \<Rightarrow> bool" where
  "between p q v = (let mn = min p q; mx = max p q in v > mn \<and> v < mx)"

definition checkIntersection ::
  "real Vector2 \<Rightarrow> real Vector2 \<Rightarrow> real \<Rightarrow> real \<Rightarrow> real \<Rightarrow> Boid \<Rightarrow> world \<Rightarrow> bool \<times> world"
  where
  "checkIntersection pointLocation sectorLocation sectorRadius sectorStartAngle sectorEndAngle this w =
     (let w1 = arc (loc this) sectorRadius (color this)
                 (getDirection (dir this) + sectorStartAngle)
                 (getDirection (dir this) + sectorEndAngle) False w
      in if \<not> ((x pointLocation - x sectorLocation)\<^sup>2 + (y pointLocation - y sectorLocation)\<^sup>2
                 \<le> sectorRadius\<^sup>2) then (False, w1)
         else if sectorStartAngle = sectorEndAngle then (False, w1)
         else if \<bar>sectorStartAngle - sectorEndAngle\<bar> = pi * 2 then (True, w1)
         else (let pointVectorAngle =
                     atan2 (y pointLocation - y sectorLocation) (x pointLocation - x sectorLocation)
                       - getDirection (dir this)
               in (between sectorStartAngle sectorEndAngle pointVectorAngle, w1)))"

text \<open>\<^verbatim>\<open>update(deltaTime)\<close> is three steps in a row. The first statement moves the boid.\<close>

definition move :: "real \<Rightarrow> Boid \<Rightarrow> Boid" where
  "move deltaTime this =
     this\<lparr>loc := addAndMutate (multiply (speed this * deltaTime) (dir this)) (loc this)\<rparr>"

text \<open>The four conditionals that follow put a boid that left the canvas on the opposite
  edge.\<close>

definition wrap :: "world \<Rightarrow> Boid \<Rightarrow> Boid" where
  "wrap w this =
     (let l1 = (if x (loc this) > CANVAS_WIDTH w then (loc this)\<lparr>x := 0\<rparr> else loc this);
          l2 = (if x l1 < 0 then l1\<lparr>x := CANVAS_WIDTH w\<rparr> else l1);
          l3 = (if y l2 > CANVAS_HEIGHT w then l2\<lparr>y := 0\<rparr> else l2);
          l4 = (if y l3 < 0 then l3\<lparr>y := CANVAS_HEIGHT w\<rparr> else l3)
      in this\<lparr>loc := l4\<rparr>)"

text \<open>The last statement looks for the target at \<open>(200, 200)\<close> and sets the indicator
  colour \<^verbatim>\<open>c\<close>.\<close>

definition perceive :: "Boid \<Rightarrow> world \<Rightarrow> world" where
  "perceive this w =
     (let (hit, w1) = checkIntersection \<lparr>x = 200, y = 200\<rparr> (loc this) 50
                        (- perceptionAngle this * pi / 180)
                        (perceptionAngle this * pi / 180) this w
      in if hit
         then w1\<lparr>c := (c w1)\<lparr>r := Some (Num 0), g := Some (Num 255), b := Some (Num 0)\<rparr>\<rparr>
         else w1\<lparr>c := (c w1)\<lparr>r := Some (Num 255), g := Some (Num 0), b := Some (Num 0)\<rparr>\<rparr>)"

definition update :: "real \<Rightarrow> Boid \<Rightarrow> world \<Rightarrow> Boid \<times> world" where
  "update deltaTime this w =
     (let this1 = wrap w (move deltaTime this) in (this1, perceive this1 w))"

text \<open>The boid the program creates in \<^verbatim>\<open>setup\<close> has a random colour; the perception
  angle is the constructor's default.\<close>

definition Boid_constructor ::
  "real Vector2 \<Rightarrow> real Vector2 \<Rightarrow> real \<Rightarrow> Color \<Rightarrow> real option \<Rightarrow> Boid" where
  "Boid_constructor l d s col pa =
     \<lparr>loc = l, dir = d, speed = s, color = col,
      perceptionAngle = (case pa of None \<Rightarrow> 120 | Some v \<Rightarrow> v)\<rparr>"

section \<open>Rounding to a double\<close>

text \<open>A natural number below \<open>2 ^ 53\<close> is a double; a number from \<open>2 ^ 1024\<close> on rounds to
  \<^verbatim>\<open>Infinity\<close>; \<open>2 ^ 53 + 1\<close> is halfway between two doubles and rounds to the even one.\<close>

lemma to_double_exact_nat:
  assumes "0 < n" "n < 2 ^ 53"
  shows "to_double (real n) = Num (real n)"
proof -
  define k where "k = \<lfloor>log 2 (real n)\<rfloor>"
  define e where "e = max (k - 52) (- 1074)"
  have npos: "0 < real n" using assms(1) by simp
  have "log 2 (real n) < 53"
  proof -
    have "real n < 2 powr 53" using assms(2)
      by (metis of_nat_less_iff of_nat_numeral of_nat_power powr_realpow numeral_powr_numeral_real zero_less_numeral)
    then show ?thesis using npos by (simp add: log_less_iff)
  qed
  then have "k < 53" unfolding k_def by linarith
  then have e_le: "e \<le> 0" and e_ge: "- 1074 \<le> e" unfolding e_def by auto
  define j where "j = nat (- e)"
  have e_j: "e = - int j" using e_le by (simp add: j_def)
  have pw: "2 powr real_of_int e = 1 / 2 ^ j"
    by (simp add: e_j powr_minus powr_realpow divide_inverse)
  have s: "real n / 2 powr real_of_int e = real (n * 2 ^ j)"
    by (simp add: pw)
  have fl: "\<lfloor>real (n * 2 ^ j)\<rfloor> = int (n * 2 ^ j)" by (rule floor_of_nat)
  have d: "real_of_int (int (n * 2 ^ j)) * 2 powr real_of_int e = real n"
    by (simp add: pw)
  define B where "B = (2 :: real) ^ 1024"
  have small: "\<not> B \<le> real n"
  proof -
    have "real n < 2 ^ 53" using assms(2) by (metis of_nat_less_iff of_nat_numeral of_nat_power)
    also have "\<dots> \<le> (2 :: real) ^ 1024" by (rule power_increasing) simp_all
    finally show ?thesis by (simp only: B_def not_le)
  qed
  have unit: "2 ^ j * 2 powr real_of_int e = 1"
    "real n * 2 ^ j * 2 powr real_of_int e = real n" by (simp_all add: pw)
  show ?thesis
    using npos small
    unfolding to_double_def Let_def B_def[symmetric]
    by (simp only: abs_of_pos[OF npos] k_def[symmetric] e_def[symmetric] s fl d)
       (simp add: unit)
qed

lemma to_double_numeral:
  "(numeral w :: nat) < 2 ^ 53 \<Longrightarrow> to_double (numeral w) = Num (numeral w)"
  using to_double_exact_nat[of "numeral w"] by simp

lemma to_double_zero: "to_double 0 = Num 0"
  by (simp add: to_double_def)

lemma to_double_nat:
  assumes "n < 2 ^ 53"
  shows "to_double (real n) = Num (real n)"
proof (cases "n = 0")
  case True
  then show ?thesis by (simp add: to_double_zero)
next
  case False
  then have "0 < n" by simp
  then show ?thesis using assms by (rule to_double_exact_nat)
qed

lemma to_double_overflow:
  assumes "2 ^ 1024 \<le> v"
  shows "to_double v = Infinity"
proof -
  define B where "B = (2 :: real) ^ 1024"
  have Bpos: "0 < B" by (simp add: B_def)
  have vB: "B \<le> v" using assms by (simp only: B_def)
  have vpos: "0 < v" using Bpos vB by linarith
  define k where "k = \<lfloor>log 2 v\<rfloor>"
  define e where "e = max (k - 52) (- 1074)"
  have Bpowr: "B = 2 powr 1024" unfolding B_def by (simp only: numeral_powr_numeral_real)
  have "1024 \<le> log 2 v"
    using vB vpos unfolding Bpowr by (simp add: le_log_iff)
  then have k_ge: "1024 \<le> k" unfolding k_def by linarith
  then have e_eq: "e = k - 52" unfolding e_def by simp
  have kv: "2 powr real_of_int k \<le> v"
    using floor_log_eq_powr_iff[of v 2 k] vpos by (simp add: k_def)
  define s where "s = v / 2 powr real_of_int e"
  have "real_of_int k = 52 + real_of_int e" by (simp add: e_eq)
  then have "(2 :: real) powr real_of_int k = 2 powr (52 + real_of_int e)" by (simp only:)
  also have "\<dots> = 2 powr 52 * 2 powr real_of_int e" by (rule powr_add)
  finally have split: "(2 :: real) powr real_of_int k = 2 powr 52 * 2 powr real_of_int e" .
  have s_ge: "2 powr 52 \<le> s"
    unfolding s_def using kv split by (simp add: pos_le_divide_eq)
  define f where "f = \<lfloor>s\<rfloor>"
  have "(2 :: real) powr 52 = real_of_int (2 ^ 52)" by (simp only: numeral_powr_numeral_real) simp
  with s_ge have f_ge: "2 ^ 52 \<le> f" unfolding f_def by (simp add: le_floor_iff)
  define m where "m = (if s - real_of_int f < 1 / 2 then f
                  else if 1 / 2 < s - real_of_int f then f + 1
                  else if even f then f else f + 1)"
  have m_ge: "f \<le> m" unfolding m_def by simp
  have "real_of_int (2 ^ 52) \<le> real_of_int m" using f_ge m_ge by linarith
  then have "2 powr 52 \<le> real_of_int m" by (simp only: numeral_powr_numeral_real) simp
  then have "2 powr 52 * 2 powr real_of_int e \<le> real_of_int m * 2 powr real_of_int e"
    by (simp add: mult_right_mono)
  then have "2 powr real_of_int k \<le> real_of_int m * 2 powr real_of_int e"
    by (simp only: split)
  moreover have "B \<le> 2 powr real_of_int k"
  proof -
    have "(1024 :: real) \<le> real_of_int k" using k_ge by simp
    then have "(2 :: real) powr 1024 \<le> 2 powr real_of_int k" by (rule powr_mono) simp
    then show ?thesis by (simp only: Bpowr)
  qed
  ultimately have big: "B \<le> real_of_int m * 2 powr real_of_int e" by linarith
  have "v \<noteq> 0" "\<not> v < 0" "\<bar>v\<bar> = v" using vpos by simp_all
  then show ?thesis
    unfolding to_double_def Let_def B_def[symmetric]
    using big
    by (simp only: k_def[symmetric] e_def[symmetric] s_def[symmetric] f_def[symmetric]
        m_def[symmetric] if_True if_False)
qed

lemma to_double_overflow_nat:
  "2 ^ 1024 \<le> n \<Longrightarrow> to_double (real n) = Infinity"
proof -
  assume "2 ^ 1024 \<le> n"
  then have "real (2 ^ 1024) \<le> real n" by (simp only: of_nat_le_iff)
  then have "(2 :: real) ^ 1024 \<le> real n" by (simp only: of_nat_power of_nat_numeral)
  then show ?thesis by (rule to_double_overflow)
qed

lemma to_double_tie:
  "to_double 9007199254740993 = Num 9007199254740992"
proof -
  define B where "B = (2 :: real) ^ 1024"
  have k: "\<lfloor>log 2 (9007199254740993 :: real)\<rfloor> = 53"
  proof -
    have "(2 :: real) powr real_of_int 53 \<le> 9007199254740993 \<and>
          (9007199254740993 :: real) < 2 powr (real_of_int 53 + 1)"
      by (simp add: powr_numeral)
    then show ?thesis
      using floor_log_eq_powr_iff[of "9007199254740993 :: real" 2 53] by simp
  qed
  have s: "(9007199254740993 :: real) / 2 powr real_of_int (max (53 - 52) (- 1074)) = 9007199254740993 / 2"
    by simp
  have f: "\<lfloor>(9007199254740993 :: real) / 2\<rfloor> = 4503599627370496"
    by (simp add: floor_eq_iff)
  have d: "real_of_int 4503599627370496 * 2 powr real_of_int (max (53 - 52) (- 1074)) = 9007199254740992"
    by simp
  have small: "\<not> B \<le> 9007199254740992"
  proof -
    have "(9007199254740992 :: real) = 2 ^ 53" by simp
    also have "\<dots> < 2 ^ 1024" by (rule power_strict_increasing) simp_all
    finally show ?thesis by (simp only: B_def not_le)
  qed
  show ?thesis
    unfolding to_double_def Let_def B_def[symmetric]
    using small
    by (simp only: abs_numeral k s f) (simp add: d)
qed

section \<open>Vector2: direction and magnitude\<close>

lemma sqrt_ratio:
  assumes "px \<noteq> 0"
  shows "sqrt (1 + (py / px)\<^sup>2) = sqrt (px * px + py * py) / \<bar>px\<bar>"
proof -
  have "1 + (py / px)\<^sup>2 = (px * px + py * py) / (px\<^sup>2)"
    using assms by (simp add: field_simps power2_eq_square)
  then show ?thesis by (simp add: real_sqrt_divide)
qed

lemma cos_atan2:
  "px \<noteq> 0 \<or> py \<noteq> 0 \<Longrightarrow> cos (atan2 py px) = px / sqrt (px * px + py * py)"
  by (auto simp: atan2_def cos_arctan sqrt_ratio)

lemma sin_atan2:
  "px \<noteq> 0 \<or> py \<noteq> 0 \<Longrightarrow> sin (atan2 py px) = py / sqrt (px * px + py * py)"
  by (auto simp: atan2_def sin_arctan sqrt_ratio)

lemma atan2_scale: "0 < k \<Longrightarrow> atan2 (py * k) (px * k) = atan2 py px"
  by (auto simp: atan2_def zero_less_mult_iff mult_less_0_iff zero_le_mult_iff)

lemma Vector2_nonzero_iff: "(v :: real Vector2) \<noteq> \<lparr>x = 0, y = 0\<rparr> \<longleftrightarrow> x v \<noteq> 0 \<or> y v \<noteq> 0"
  by (cases v) auto

lemma getMagnitude_pos:
  assumes "(v :: real Vector2) \<noteq> \<lparr>x = 0, y = 0\<rparr>"
  shows "0 < getMagnitude v"
proof -
  have "x v \<noteq> 0 \<or> y v \<noteq> 0" using assms by (simp add: Vector2_nonzero_iff)
  then have "0 < x v * x v + y v * y v"
    by (metis not_sum_squares_lt_zero sum_squares_eq_zero_iff linorder_neqE_linordered_idom)
  then show ?thesis by (simp add: getMagnitude_def)
qed

lemma getMagnitude_multiply: "getMagnitude (multiply k v) = \<bar>k\<bar> * getMagnitude v"
proof -
  have "x v * k * (x v * k) + y v * k * (y v * k) = k\<^sup>2 * (x v * x v + y v * y v)"
    by (simp add: power2_eq_square algebra_simps)
  then show ?thesis
    by (simp add: getMagnitude_def multiply_def real_sqrt_mult)
qed

text \<open>On finite numbers that are not the negative zero, the direction of the IEEE reading
  is the direction of the real reading.\<close>

lemma Math_atan2_real: "Math_atan2 (Num py) (Num px) = Num (atan2 py px)"
  by simp

lemma number_times_finite:
  assumes "is_finite p" "is_finite q"
  shows "is_finite (number_times p q)" "value_of (number_times p q) = value_of p * value_of q"
  using assms
  by (auto simp: number_times_def is_finite_def value_of_def split: number.splits)

lemma cos_direction:
  assumes "is_finite vx" "is_finite vy" "value_of vx \<noteq> 0 \<or> value_of vy \<noteq> 0"
  shows "is_finite (Math_cos (Math_atan2 vy vx))"
    "value_of (Math_cos (Math_atan2 vy vx)) =
       value_of vx / sqrt (value_of vx * value_of vx + value_of vy * value_of vy)"
  using assms
  by (cases vx; cases vy; simp add: is_finite_def value_of_def cos_atan2)+

lemma sin_direction:
  assumes "is_finite vx" "is_finite vy" "value_of vx \<noteq> 0 \<or> value_of vy \<noteq> 0"
  shows "is_finite (Math_sin (Math_atan2 vy vx))"
    "value_of (Math_sin (Math_atan2 vy vx)) =
       value_of vy / sqrt (value_of vx * value_of vx + value_of vy * value_of vy)"
  using assms
  by (cases vx; cases vy; simp add: is_finite_def value_of_def sin_atan2)+

lemma setMagnitude_real_reading:
  assumes "is_finite (x v)" "is_finite (y v)" "is_finite m"
    and "real_reading v \<noteq> \<lparr>x = 0, y = 0\<rparr>"
  shows "real_reading (setMagnitude m v) =
           multiply (value_of m / getMagnitude (real_reading v)) (real_reading v)"
proof -
  have nz: "value_of (x v) \<noteq> 0 \<or> value_of (y v) \<noteq> 0"
    using assms(4) by (simp add: real_reading_def)
  show ?thesis
    using cos_direction[OF assms(1,2) nz] sin_direction[OF assms(1,2) nz] assms(3)
    by (simp add: setMagnitude_def getDirection_ieee_def Let_def real_reading_def multiply_def
        getMagnitude_def number_times_finite)
qed

text \<open>
  Claim C7, as the specification states it: for every magnitude \<open>m\<close>, \<^verbatim>\<open>setMagnitude(m)\<close>
  on the zero vector gives exactly \<open>(m, 0)\<close>. There are four zero vectors. On \<open>(-0, +0)\<close>,
  which \<^verbatim>\<open>new Vector2(-1, 0).multiply(0)\<close> and \<^verbatim>\<open>new Vector2(0, 0).normal()\<close> build, the
  direction is \<open>atan2(+0, -0) = pi\<close> and \<^verbatim>\<open>setMagnitude(10)\<close> writes \<open>- 10\<close> to x. On
  \<open>(+0, +0)\<close> an infinite magnitude gives the y component \<open>0 * Infinity\<close>, which is NaN.
\<close>

theorem setMagnitude_zero_counterexample:
  "is_zero NegZero \<and> is_zero (Num 0) \<and>
   x (setMagnitude (Num 10) \<lparr>x = NegZero, y = Num 0\<rparr>) = Num (- 10) \<and>
   Num (- 10) \<noteq> Num 10 \<and>
   y (setMagnitude Infinity \<lparr>x = Num 0, y = Num 0\<rparr>) = NaN"
  by (simp add: setMagnitude_def getDirection_ieee_def Let_def number_times_def is_zero_def
      is_finite_def value_of_def is_negative_def atan2_def)

text \<open>
  Claim C7, amended. For every finite magnitude \<open>m\<close>, \<^verbatim>\<open>setMagnitude(m)\<close> on a zero vector
  whose x component is \<open>+0\<close> (its y component either zero) gives the vector \<open>(m, 0)\<close>: x is
  exactly \<open>m\<close> and y is a zero, the direction being \<open>atan2(0, +0)\<close>, a zero. On a vector of
  finite numbers that is not zero, with a finite \<open>m\<close>, it rescales the vector along its
  direction: in exact arithmetic the result is the vector times \<open>m / |v|\<close>, its magnitude
  is \<open>|m|\<close>, and for a positive \<open>m\<close> its direction is that of the vector.
\<close>

theorem setMagnitude_zero_and_rescale:
  "(is_zero vy \<and> is_finite m \<longrightarrow>
      x (setMagnitude m \<lparr>x = Num 0, y = vy\<rparr>) = m \<and>
      is_zero (y (setMagnitude m \<lparr>x = Num 0, y = vy\<rparr>))) \<and>
   (is_finite (x v) \<and> is_finite (y v) \<and> is_finite m \<and> real_reading v \<noteq> \<lparr>x = 0, y = 0\<rparr> \<longrightarrow>
      real_reading (setMagnitude m v) =
        multiply (value_of m / getMagnitude (real_reading v)) (real_reading v) \<and>
      getMagnitude (real_reading (setMagnitude m v)) = \<bar>value_of m\<bar> \<and>
      (0 < value_of m \<longrightarrow>
         getDirection (real_reading (setMagnitude m v)) = getDirection (real_reading v)))"
proof (intro conjI impI; (elim conjE)?)
  assume z: "is_zero vy" and fm: "is_finite m"
  from fm z show "x (setMagnitude m \<lparr>x = Num 0, y = vy\<rparr>) = m"
    by (cases m)
      (auto simp: setMagnitude_def getDirection_ieee_def Let_def number_times_def is_zero_def
        is_finite_def value_of_def is_negative_def atan2_def)
  from fm z show "is_zero (y (setMagnitude m \<lparr>x = Num 0, y = vy\<rparr>))"
    by (cases m)
      (auto simp: setMagnitude_def getDirection_ieee_def Let_def number_times_def is_zero_def
        is_finite_def value_of_def is_negative_def atan2_def)
next
  assume fin: "is_finite (x v)" "is_finite (y v)" "is_finite m"
    and nz: "real_reading v \<noteq> \<lparr>x = 0, y = 0\<rparr>"
  note eq = setMagnitude_real_reading[OF fin nz]
  show "real_reading (setMagnitude m v) =
        multiply (value_of m / getMagnitude (real_reading v)) (real_reading v)"
    by (rule eq)
  have pos: "0 < getMagnitude (real_reading v)" using nz by (rule getMagnitude_pos)
  show "getMagnitude (real_reading (setMagnitude m v)) = \<bar>value_of m\<bar>"
    using pos by (simp add: eq getMagnitude_multiply)
  assume "0 < value_of m"
  then have "0 < value_of m / getMagnitude (real_reading v)" using pos by simp
  then have "atan2 (y (real_reading v) * (value_of m / getMagnitude (real_reading v)))
               (x (real_reading v) * (value_of m / getMagnitude (real_reading v))) =
             atan2 (y (real_reading v)) (x (real_reading v))"
    by (rule atan2_scale)
  then show "getDirection (real_reading (setMagnitude m v)) = getDirection (real_reading v)"
    by (simp add: eq getDirection_def multiply_def)
qed

theorem setMagnitude_zero_and_rescale_witness:
  "setMagnitude (Num 10) \<lparr>x = Num 0, y = NegZero\<rparr> = \<lparr>x = Num 10, y = NegZero\<rparr> \<and>
   setMagnitude (Num 10) \<lparr>x = Num 2, y = Num 0\<rparr> = \<lparr>x = Num 10, y = Num 0\<rparr> \<and>
   real_reading (setMagnitude (Num 10) \<lparr>x = Num 2, y = Num 0\<rparr>) = \<lparr>x = 10, y = 0\<rparr> \<and>
   getMagnitude (real_reading (setMagnitude (Num 10) \<lparr>x = Num 2, y = Num 0\<rparr>)) = 10 \<and>
   getDirection (real_reading (setMagnitude (Num 10) \<lparr>x = Num 2, y = Num 0\<rparr>)) = 0"
  using setMagnitude_zero_and_rescale[of NegZero "Num 10" "\<lparr>x = Num 2, y = Num 0\<rparr>"]
  by (simp add: is_zero_def is_finite_def value_of_def real_reading_def multiply_def
      getMagnitude_def getDirection_def atan2_def setMagnitude_def getDirection_ieee_def
      number_times_def is_negative_def Let_def)

text \<open>On a zero vector whose x component is \<open>-0\<close> the direction is \<open>pi\<close> or \<open>- pi\<close>, and
  the x component becomes the negated magnitude.\<close>

lemma setMagnitude_negative_zero:
  "is_zero vy \<Longrightarrow> x (setMagnitude (Num q) \<lparr>x = NegZero, y = vy\<rparr>) = (if q = 0 then NegZero else Num (- q))"
  by (auto simp: setMagnitude_def getDirection_ieee_def Let_def
        number_times_def is_zero_def is_finite_def value_of_def is_negative_def atan2_def)

section \<open>checkIntersection\<close>

text \<open>
  Claim C4. For every point, sector location, radius and angle \<open>A\<close>, \<^verbatim>\<open>checkIntersection\<close>
  with start angle and end angle both \<open>A\<close> returns false, wherever the point is.
\<close>

theorem checkIntersection_zero_width:
  "fst (checkIntersection pointLocation sectorLocation sectorRadius A A this w) = False"
  by (simp add: checkIntersection_def Let_def)

text \<open>
  Claim C5. When the start and end angles are a full circle apart, \<open>|start - end| = 2 pi\<close>,
  the result is true for every point whose squared distance from the sector location is at
  most the squared radius, whatever the angle of the point and the direction of the boid.
\<close>

theorem checkIntersection_full_circle:
  assumes "\<bar>sectorStartAngle - sectorEndAngle\<bar> = pi * 2"
    and "(x pointLocation - x sectorLocation)\<^sup>2 + (y pointLocation - y sectorLocation)\<^sup>2
           \<le> sectorRadius\<^sup>2"
  shows "fst (checkIntersection pointLocation sectorLocation sectorRadius
                sectorStartAngle sectorEndAngle this w) = True"
  using assms by (auto simp: checkIntersection_def Let_def)

theorem checkIntersection_full_circle_witness:
  "\<bar>- pi - pi\<bar> = pi * 2 \<and>
   fst (checkIntersection \<lparr>x = - 3, y = 4\<rparr> \<lparr>x = 0, y = 0\<rparr> 5 (- pi) pi
          (Boid_constructor \<lparr>x = 0, y = 0\<rparr> \<lparr>x = 1, y = 0\<rparr> 1 Color_unset None) world_init) = True"
  using checkIntersection_full_circle[of "- pi" pi "\<lparr>x = - 3, y = 4\<rparr>" "\<lparr>x = 0, y = 0\<rparr>" 5
      "Boid_constructor \<lparr>x = 0, y = 0\<rparr> \<lparr>x = 1, y = 0\<rparr> 1 Color_unset None" world_init]
  by simp

text \<open>
  Claim C9. The result of \<^verbatim>\<open>checkIntersection\<close> does not change when the start angle and
  the end angle are exchanged.
\<close>

theorem checkIntersection_symmetric:
  "fst (checkIntersection pointLocation sectorLocation sectorRadius a0 a1 this w) =
   fst (checkIntersection pointLocation sectorLocation sectorRadius a1 a0 this w)"
  by (auto simp: checkIntersection_def Let_def between_def min_def max_def abs_minus_commute)




section \<open>update\<close>

text \<open>
  Claim C6. With a field of non-negative width and height, after the move step of
  \<^verbatim>\<open>update\<close>: an x coordinate strictly greater than the width becomes 0, one strictly
  less than 0 becomes the width, and one equal to 0 or to the width (or anywhere from 0 to
  the width) is unchanged; the same holds for y against the height, whatever x is. In
  particular a boid whose x coordinate is the width plus 1 has x coordinate 0 after
  \<^verbatim>\<open>update(0)\<close>.
\<close>

theorem update_wrap:
  assumes "0 \<le> CANVAS_WIDTH w" and "0 \<le> CANVAS_HEIGHT w"
  shows
    "(CANVAS_WIDTH w < x (loc (move deltaTime this)) \<longrightarrow>
        x (loc (fst (update deltaTime this w))) = 0) \<and>
     (x (loc (move deltaTime this)) < 0 \<longrightarrow>
        x (loc (fst (update deltaTime this w))) = CANVAS_WIDTH w) \<and>
     (x (loc (move deltaTime this)) = 0 \<or> x (loc (move deltaTime this)) = CANVAS_WIDTH w \<longrightarrow>
        x (loc (fst (update deltaTime this w))) = x (loc (move deltaTime this))) \<and>
     (0 \<le> x (loc (move deltaTime this)) \<and> x (loc (move deltaTime this)) \<le> CANVAS_WIDTH w \<longrightarrow>
        x (loc (fst (update deltaTime this w))) = x (loc (move deltaTime this))) \<and>
     (CANVAS_HEIGHT w < y (loc (move deltaTime this)) \<longrightarrow>
        y (loc (fst (update deltaTime this w))) = 0) \<and>
     (y (loc (move deltaTime this)) < 0 \<longrightarrow>
        y (loc (fst (update deltaTime this w))) = CANVAS_HEIGHT w) \<and>
     (y (loc (move deltaTime this)) = 0 \<or> y (loc (move deltaTime this)) = CANVAS_HEIGHT w \<longrightarrow>
        y (loc (fst (update deltaTime this w))) = y (loc (move deltaTime this))) \<and>
     (0 \<le> y (loc (move deltaTime this)) \<and> y (loc (move deltaTime this)) \<le> CANVAS_HEIGHT w \<longrightarrow>
        y (loc (fst (update deltaTime this w))) = y (loc (move deltaTime this))) \<and>
     (x (loc this) = CANVAS_WIDTH w + 1 \<longrightarrow> x (loc (fst (update 0 this w))) = 0)"
proof -
  have at_zero: "x (loc (move 0 this)) = x (loc this)"
    by (simp add: move_def addAndMutate_def multiply_def)
  have last: "x (loc this) = CANVAS_WIDTH w + 1 \<longrightarrow> x (loc (fst (update 0 this w))) = 0"
    using at_zero by (simp add: update_def wrap_def Let_def)
  have rest: "x (loc (fst (update deltaTime this w))) =
      (if CANVAS_WIDTH w < x (loc (move deltaTime this)) then 0
       else if x (loc (move deltaTime this)) < 0 then CANVAS_WIDTH w
       else x (loc (move deltaTime this)))"
    "y (loc (fst (update deltaTime this w))) =
      (if CANVAS_HEIGHT w < y (loc (move deltaTime this)) then 0
       else if y (loc (move deltaTime this)) < 0 then CANVAS_HEIGHT w
       else y (loc (move deltaTime this)))"
    by (simp_all add: update_def wrap_def Let_def)
  show ?thesis
    using assms last unfolding rest by auto
qed

theorem update_wrap_witness:
  "x (loc (fst (update 0
      (Boid_constructor \<lparr>x = 601, y = - 5\<rparr> \<lparr>x = 1, y = 0\<rparr> (1 / 20) Color_unset None)
      world_init))) = 0 \<and>
   y (loc (fst (update 0
      (Boid_constructor \<lparr>x = 601, y = - 5\<rparr> \<lparr>x = 1, y = 0\<rparr> (1 / 20) Color_unset None)
      world_init))) = 600"
  using update_wrap[of world_init 0
      "Boid_constructor \<lparr>x = 601, y = - 5\<rparr> \<lparr>x = 1, y = 0\<rparr> (1 / 20) Color_unset None"]
  by (simp add: world_init_def Boid_constructor_def move_def addAndMutate_def multiply_def)

text \<open>
  Claim C8. With a field of non-negative width and height, the location of a boid after
  \<^verbatim>\<open>update(deltaTime)\<close> has an x coordinate from 0 to the width and a y coordinate from 0
  to the height, however far outside the field the move step lands. (Every coordinate of
  the model is a real number.)
\<close>

theorem update_location_in_field:
  assumes "0 \<le> CANVAS_WIDTH w" and "0 \<le> CANVAS_HEIGHT w"
  shows "0 \<le> x (loc (fst (update deltaTime this w))) \<and>
         x (loc (fst (update deltaTime this w))) \<le> CANVAS_WIDTH w \<and>
         0 \<le> y (loc (fst (update deltaTime this w))) \<and>
         y (loc (fst (update deltaTime this w))) \<le> CANVAS_HEIGHT w"
  using assms by (simp add: update_def wrap_def Let_def)

theorem update_location_in_field_witness:
  "0 \<le> x (loc (fst (update 1000000
      (Boid_constructor \<lparr>x = 130, y = 100\<rparr> \<lparr>x = 1, y = 0\<rparr> (1 / 20) Color_unset None)
      world_init))) \<and>
   x (loc (fst (update 1000000
      (Boid_constructor \<lparr>x = 130, y = 100\<rparr> \<lparr>x = 1, y = 0\<rparr> (1 / 20) Color_unset None)
      world_init))) \<le> 600"
  using update_location_in_field[of world_init 1000000
      "Boid_constructor \<lparr>x = 130, y = 100\<rparr> \<lparr>x = 1, y = 0\<rparr> (1 / 20) Color_unset None"]
  by (simp add: world_init_def)

text \<open>Every call of \<^verbatim>\<open>update\<close> draws one sector, from the facing angle minus the
  perception angle to the facing angle plus the perception angle (in radians).\<close>

lemma update_draws_sector:
  "drawn (snd (update deltaTime this w)) =
     drawn w @
     [Arc (loc (fst (update deltaTime this w))) 50 (color this)
        (getDirection (dir this) + - perceptionAngle this * pi / 180)
        (getDirection (dir this) + perceptionAngle this * pi / 180) False]"
  by (simp add: update_def perceive_def checkIntersection_def Let_def move_def wrap_def arc_def
      split: prod.splits)

text \<open>
  Claim C1 says that \<^verbatim>\<open>update\<close> calls the sector check with the angles \<open>- P / 2\<close> and
  \<open>P / 2\<close> degrees in radians, for a sector \<open>P\<close> degrees wide. The code passes \<open>- P\<close> and
  \<open>P\<close>. For the default \<open>P = 120\<close>, a boid at \<open>(200, 170)\<close> that faces along the x axis has
  the target \<open>(200, 200)\<close> at 90 degrees: \<^verbatim>\<open>update(0)\<close> draws the sector from \<open>- 2 pi / 3\<close>
  to \<open>2 pi / 3\<close> (240 degrees wide) and turns the indicator green, while the check with the
  halved angles returns false.
\<close>

theorem update_sector_is_twice_perceptionAngle:
  "drawn (snd (update 0
      (Boid_constructor \<lparr>x = 200, y = 170\<rparr> \<lparr>x = 1, y = 0\<rparr> (1 / 20) Color_unset None)
      world_init)) =
     [Arc \<lparr>x = 200, y = 170\<rparr> 50 Color_unset (- (2 * pi / 3)) (2 * pi / 3) False] \<and>
   g (c (snd (update 0
      (Boid_constructor \<lparr>x = 200, y = 170\<rparr> \<lparr>x = 1, y = 0\<rparr> (1 / 20) Color_unset None)
      world_init))) = Some (Num 255) \<and>
   fst (checkIntersection \<lparr>x = 200, y = 200\<rparr> \<lparr>x = 200, y = 170\<rparr> 50
          (- (120 / 2) * pi / 180) (120 / 2 * pi / 180)
          (Boid_constructor \<lparr>x = 200, y = 170\<rparr> \<lparr>x = 1, y = 0\<rparr> (1 / 20) Color_unset None)
          world_init) = False"
proof (intro conjI)
  show "drawn (snd (update 0
      (Boid_constructor \<lparr>x = 200, y = 170\<rparr> \<lparr>x = 1, y = 0\<rparr> (1 / 20) Color_unset None)
      world_init)) =
     [Arc \<lparr>x = 200, y = 170\<rparr> 50 Color_unset (- (2 * pi / 3)) (2 * pi / 3) False]"
    by (simp add: update_def perceive_def checkIntersection_def Let_def Boid_constructor_def
        world_init_def move_def wrap_def addAndMutate_def multiply_def arc_def getDirection_def
        atan2_def split: prod.splits)
  show "g (c (snd (update 0
      (Boid_constructor \<lparr>x = 200, y = 170\<rparr> \<lparr>x = 1, y = 0\<rparr> (1 / 20) Color_unset None)
      world_init))) = Some (Num 255)"
    by (simp add: update_def perceive_def checkIntersection_def Let_def Boid_constructor_def
        world_init_def move_def wrap_def addAndMutate_def multiply_def arc_def getDirection_def
        atan2_def between_def)
      (insert pi_gt_zero, linarith)
  show "fst (checkIntersection \<lparr>x = 200, y = 200\<rparr> \<lparr>x = 200, y = 170\<rparr> 50
          (- (120 / 2) * pi / 180) (120 / 2 * pi / 180)
          (Boid_constructor \<lparr>x = 200, y = 170\<rparr> \<lparr>x = 1, y = 0\<rparr> (1 / 20) Color_unset None)
          world_init) = False"
    by (simp add: checkIntersection_def Let_def Boid_constructor_def arc_def getDirection_def
        atan2_def between_def)
qed

section \<open>The pattern's captures\<close>

lemma backtrack_SomeD:
  "backtrack lo f n = Some res \<Longrightarrow> \<exists>k. lo \<le> k \<and> k \<le> n \<and> f k = Some res"
proof (induction n)
  case 0
  then show ?case by (auto split: if_splits)
next
  case (Suc n)
  show ?case
  proof (cases "f (Suc n)")
    case None
    with Suc.prems have "backtrack lo f n = Some res" by (simp split: if_splits)
    from Suc.IH[OF this] show ?thesis by (metis le_Suc_eq)
  next
    case (Some r')
    with Suc.prems have "\<not> Suc n < lo" "r' = res" by (auto split: if_splits)
    with Some show ?thesis by (intro exI[of _ "Suc n"]) simp
  qed
qed

lemma take_takeWhile_all:
  assumes "n \<le> length (takeWhile p t)"
  shows "list_all p (take n t)"
proof -
  have "take n t = take n (takeWhile p t)"
    by (metis assms takeWhile_dropWhile_id take_append diff_is_0_eq' take_0 append_Nil2)
  moreover have "list_all p (takeWhile p t)"
    by (simp add: list_all_iff) (meson set_takeWhileD)
  ultimately show ?thesis by (metis list_all_iff in_set_takeD)
qed

text \<open>What a quantifier hands to the rest of the pattern is made of characters of its
  class, and is at least as long as the quantifier asks.\<close>

lemma greedy_rule:
  assumes "greedy p lo t k = Some res"
    and "\<And>taken rest. list_all p taken \<Longrightarrow> lo \<le> length taken \<Longrightarrow> k taken rest = Some res \<Longrightarrow> Q"
  shows Q
proof -
  from assms(1) obtain n where n: "lo \<le> n" "n \<le> length (takeWhile p t)"
    "k (take n t) (drop n t) = Some res"
    unfolding greedy_def by (blast dest: backtrack_SomeD)
  have "length (takeWhile p t) \<le> length t" by (rule length_takeWhile_le)
  with n have "length (take n t) = n" by simp
  with n take_takeWhile_all[OF n(2)] assms(2) show Q by metis
qed

lemma match_here_digits:
  assumes "match_here t = Some (d1, d2, d3, al)"
  shows "(d1 \<noteq> [] \<and> list_all is_digit d1) \<and> (d2 \<noteq> [] \<and> list_all is_digit d2) \<and>
         (d3 \<noteq> [] \<and> list_all is_digit d3)"
  using assms unfolding match_here_def
  by (auto elim!: greedy_rule split: if_splits option.splits)

lemma exec_match_here:
  "RGB_COLOR_REGEX_exec s = Some m \<Longrightarrow> \<exists>t. match_here t = Some m"
  by (induction s) (auto split: option.splits)

lemma exec_digits:
  assumes "RGB_COLOR_REGEX_exec s = Some (d1, d2, d3, al)"
  shows "(d1 \<noteq> [] \<and> list_all is_digit d1) \<and> (d2 \<noteq> [] \<and> list_all is_digit d2) \<and>
         (d3 \<noteq> [] \<and> list_all is_digit d3)"
  using exec_match_here[OF assms] match_here_digits by blast

section \<open>Parsing the channels\<close>

lemma digit_char:
  "is_digit ch \<Longrightarrow> is_radix_digit 10 ch \<and> \<not> is_space ch \<and> ch \<noteq> CHR ''-'' \<and> ch \<noteq> CHR ''+''"
  by (auto simp: is_digit_def is_radix_digit_def digit_value_def is_space_def)

lemma hex_char:
  assumes "is_radix_digit 16 ch"
  shows "\<not> is_space ch" "ch \<noteq> CHR ''-''" "ch \<noteq> CHR ''+''" "ch \<noteq> CHR ''x''" "ch \<noteq> CHR ''X''"
    "\<exists>v. digit_value ch = Some v \<and> v < 16"
  using assms
  by (auto simp: is_radix_digit_def digit_value_def is_space_def Let_def
      split: if_splits option.splits)

lemma parseInt_digits:
  assumes "d \<noteq> []" "list_all is_digit d"
  shows "parseInt d 10 = to_double (real (digits_value 10 d))"
proof -
  obtain ch d' where d: "d = ch # d'" using assms(1) by (cases d) auto
  with assms(2) have ch: "is_digit ch" by simp
  have tw: "takeWhile (is_radix_digit 10) d = d"
    using assms(2) by (simp add: takeWhile_eq_all_conv list_all_iff digit_char)
  have front: "dropWhile is_space d = d" "take (Suc 0) d \<noteq> ''-''" "take (Suc 0) d \<noteq> ''+''"
    using digit_char[OF ch] by (simp_all add: d)
  show ?thesis
    using assms(1) by (simp add: parseInt_def Let_def front tw to_double_zero)
qed

lemma parseInt_hex_pair:
  assumes "is_radix_digit 16 h1" "is_radix_digit 16 h2"
  shows "\<exists>n. n \<le> 255 \<and> parseInt [h1, h2] 16 = Num (real n)"
proof -
  from hex_char(6)[OF assms(1)] obtain v1 where v1: "digit_value h1 = Some v1" "v1 < 16" by blast
  from hex_char(6)[OF assms(2)] obtain v2 where v2: "digit_value h2 = Some v2" "v2 < 16" by blast
  have le: "v1 * 16 + v2 \<le> 255" using v1 v2 by simp
  then have "v1 * 16 + v2 < 2 ^ 53" by simp
  then have exact: "to_double (real (v1 * 16 + v2)) = Num (real (v1 * 16 + v2))"
    by (rule to_double_nat)
  have "parseInt [h1, h2] 16 =
      (if v1 * 16 + v2 = 0 then Num 0 else to_double (real (v1 * 16 + v2)))"
    using hex_char(1-5)[OF assms(1)] hex_char(1-5)[OF assms(2)] assms v1 v2
    by (simp add: parseInt_def Let_def digits_value_def)
  then have "parseInt [h1, h2] 16 = Num (real (v1 * 16 + v2))"
    using exact by (simp split: if_splits)
  with le show ?thesis by blast
qed

lemma indexOf_from_range: "indexOf_from i pat s = - 1 \<or> int i \<le> indexOf_from i pat s"
  by (induction s arbitrary: i) (auto, force)

lemma indexOf_zero_iff: "indexOf pat s = 0 \<longleftrightarrow> take (length pat) s = pat"
proof (cases s)
  case Nil
  then show ?thesis by (auto simp: indexOf_def)
next
  case (Cons ch s')
  have "indexOf_from (Suc 0) pat s' \<noteq> 0"
    using indexOf_from_range[of "Suc 0" pat s'] by auto
  then show ?thesis by (auto simp: indexOf_def Cons)
qed

lemma rgb_not_hash: "indexOf ''rgb'' s = 0 \<Longrightarrow> indexOf ''#'' s \<noteq> 0"
  by (cases s) (auto simp: indexOf_zero_iff)

lemma dropWhile_id: "s \<noteq> [] \<Longrightarrow> \<not> p (hd s) \<Longrightarrow> dropWhile p s = s"
  by (cases s) auto

lemma trim_id: "s \<noteq> [] \<Longrightarrow> \<not> is_space (hd s) \<Longrightarrow> \<not> is_space (last s) \<Longrightarrow> trim s = s"
  by (simp add: trim_def dropWhile_id hd_rev)

section \<open>The Color constructor\<close>

lemma Color_constructor_rgb:
  assumes "indexOf ''rgb'' (trim s) = 0"
    and "RGB_COLOR_REGEX_exec (trim s) = Some (d1, d2, d3, al)"
  shows "r (Color_constructor (Str s) g0 b0 a0) = Some (to_double (real (digits_value 10 d1)))"
    "g (Color_constructor (Str s) g0 b0 a0) = Some (to_double (real (digits_value 10 d2)))"
    "b (Color_constructor (Str s) g0 b0 a0) = Some (to_double (real (digits_value 10 d3)))"
    "al = None \<Longrightarrow> a (Color_constructor (Str s) g0 b0 a0) = Some (Num 1)"
  using assms exec_digits[OF assms(2)] rgb_not_hash[OF assms(1)]
  by (simp_all add: Color_constructor_def Let_def Color_unset_def parseInt_digits)

lemma Color_constructor_hex:
  assumes "length hs = 6" "list_all (is_radix_digit 16) hs"
  shows "\<exists>n1 n2 n3. n1 \<le> 255 \<and> n2 \<le> 255 \<and> n3 \<le> 255 \<and>
     r (Color_constructor (Str (CHR ''#'' # hs)) g0 b0 a0) = Some (Num (real n1)) \<and>
     g (Color_constructor (Str (CHR ''#'' # hs)) g0 b0 a0) = Some (Num (real n2)) \<and>
     b (Color_constructor (Str (CHR ''#'' # hs)) g0 b0 a0) = Some (Num (real n3))"
proof -
  from assms(1) obtain h1 h2 h3 h4 h5 h6 where hs: "hs = [h1, h2, h3, h4, h5, h6]"
    by (auto simp: length_Suc_conv eval_nat_numeral)
  from assms(2) have hx: "is_radix_digit 16 h1" "is_radix_digit 16 h2" "is_radix_digit 16 h3"
    "is_radix_digit 16 h4" "is_radix_digit 16 h5" "is_radix_digit 16 h6"
    by (simp_all add: hs)
  have "\<not> is_space (CHR ''#'')" by (simp add: is_space_def)
  then have tr: "trim (CHR ''#'' # hs) = CHR ''#'' # hs"
    using hex_char(1)[OF hx(6)] by (intro trim_id) (simp_all add: hs)
  from parseInt_hex_pair[OF hx(1,2)] obtain n1
    where n1: "n1 \<le> 255" "parseInt [h1, h2] 16 = Num (real n1)" by blast
  from parseInt_hex_pair[OF hx(3,4)] obtain n2
    where n2: "n2 \<le> 255" "parseInt [h3, h4] 16 = Num (real n2)" by blast
  from parseInt_hex_pair[OF hx(5,6)] obtain n3
    where n3: "n3 \<le> 255" "parseInt [h5, h6] 16 = Num (real n3)" by blast
  have "r (Color_constructor (Str (CHR ''#'' # hs)) g0 b0 a0) = Some (Num (real n1))"
    "g (Color_constructor (Str (CHR ''#'' # hs)) g0 b0 a0) = Some (Num (real n2))"
    "b (Color_constructor (Str (CHR ''#'' # hs)) g0 b0 a0) = Some (Num (real n3))"
    unfolding Color_constructor_def
    by (simp_all add: tr[unfolded hs] Let_def indexOf_def substr_from_def substr_def
        Color_unset_def hs n1 n2 n3)
  with n1(1) n2(1) n3(1) show ?thesis by blast
qed

text \<open>
  Claim C3, as the specification states it: a string in a recognized format gives red,
  green and blue channels that are integers from 0 to 255. The string
  \<^verbatim>\<open>rgb(300, 0, 0)\<close> starts with \<^verbatim>\<open>rgb\<close> and matches the pattern, and its red channel
  is 300.
\<close>

theorem Color_constructor_rgb_counterexample:
  "indexOf ''rgb'' (trim ''rgb(300, 0, 0)'') = 0 \<and>
   RGB_COLOR_REGEX_exec (trim ''rgb(300, 0, 0)'') = Some (''300'', ''0'', ''0'', None) \<and>
   r (Color_constructor (Str ''rgb(300, 0, 0)'') None None None) = Some (Num 300) \<and>
   \<not> (300 :: real) \<le> 255"
  by (simp add: Color_constructor_def trim_def is_space_def indexOf_def Color_unset_def
      match_here_def greedy_def is_digit_def alpha_group_def parseInt_def is_radix_digit_def
      digit_value_def digits_value_def to_double_numeral)

text \<open>
  Claim C3, amended. A \<^verbatim>\<open>#\<close> followed by six hexadecimal digits gives red, green and
  blue channels that are integers from 0 to 255. A string that, once trimmed, starts with
  \<^verbatim>\<open>rgb\<close> and matches the pattern gives as red, green and blue channels the doubles
  nearest to the non-negative integers that the three digit groups of the match write in
  decimal (each group is a non-empty run of digits, of any length): the integer itself
  when it is below \<open>2 ^ 53\<close>, so possibly above 255, and \<^verbatim>\<open>Infinity\<close> from \<open>2 ^ 1024\<close> on.
  The alpha channel is 1 when the match has no alpha group.
\<close>

theorem Color_constructor_recognized:
  "(length hs = 6 \<and> list_all (is_radix_digit 16) hs \<longrightarrow>
      (\<exists>n1 n2 n3 :: nat. n1 \<le> 255 \<and> n2 \<le> 255 \<and> n3 \<le> 255 \<and>
         r (Color_constructor (Str (CHR ''#'' # hs)) g0 b0 a0) = Some (Num (real n1)) \<and>
         g (Color_constructor (Str (CHR ''#'' # hs)) g0 b0 a0) = Some (Num (real n2)) \<and>
         b (Color_constructor (Str (CHR ''#'' # hs)) g0 b0 a0) = Some (Num (real n3)))) \<and>
   (indexOf ''rgb'' (trim s) = 0 \<and> RGB_COLOR_REGEX_exec (trim s) = Some (d1, d2, d3, al) \<longrightarrow>
      (d1 \<noteq> [] \<and> list_all is_digit d1) \<and> (d2 \<noteq> [] \<and> list_all is_digit d2) \<and>
      (d3 \<noteq> [] \<and> list_all is_digit d3) \<and>
      r (Color_constructor (Str s) g0 b0 a0) = Some (to_double (real (digits_value 10 d1))) \<and>
      g (Color_constructor (Str s) g0 b0 a0) = Some (to_double (real (digits_value 10 d2))) \<and>
      b (Color_constructor (Str s) g0 b0 a0) = Some (to_double (real (digits_value 10 d3))) \<and>
      (digits_value 10 d1 < 2 ^ 53 \<longrightarrow>
         r (Color_constructor (Str s) g0 b0 a0) = Some (Num (real (digits_value 10 d1)))) \<and>
      (digits_value 10 d2 < 2 ^ 53 \<longrightarrow>
         g (Color_constructor (Str s) g0 b0 a0) = Some (Num (real (digits_value 10 d2)))) \<and>
      (digits_value 10 d3 < 2 ^ 53 \<longrightarrow>
         b (Color_constructor (Str s) g0 b0 a0) = Some (Num (real (digits_value 10 d3)))) \<and>
      (2 ^ 1024 \<le> digits_value 10 d1 \<longrightarrow>
         r (Color_constructor (Str s) g0 b0 a0) = Some Infinity) \<and>
      (2 ^ 1024 \<le> digits_value 10 d2 \<longrightarrow>
         g (Color_constructor (Str s) g0 b0 a0) = Some Infinity) \<and>
      (2 ^ 1024 \<le> digits_value 10 d3 \<longrightarrow>
         b (Color_constructor (Str s) g0 b0 a0) = Some Infinity) \<and>
      (al = None \<longrightarrow> a (Color_constructor (Str s) g0 b0 a0) = Some (Num 1)))"
proof (intro conjI impI; (elim conjE)?)
  assume "length hs = 6" "list_all (is_radix_digit 16) hs"
  then show "\<exists>n1 n2 n3 :: nat. n1 \<le> 255 \<and> n2 \<le> 255 \<and> n3 \<le> 255 \<and>
         r (Color_constructor (Str (CHR ''#'' # hs)) g0 b0 a0) = Some (Num (real n1)) \<and>
         g (Color_constructor (Str (CHR ''#'' # hs)) g0 b0 a0) = Some (Num (real n2)) \<and>
         b (Color_constructor (Str (CHR ''#'' # hs)) g0 b0 a0) = Some (Num (real n3))"
    by (rule Color_constructor_hex)
next
  assume h: "indexOf ''rgb'' (trim s) = 0" "RGB_COLOR_REGEX_exec (trim s) = Some (d1, d2, d3, al)"
  from exec_digits[OF h(2)]
  show "d1 \<noteq> []" "list_all is_digit d1" "d2 \<noteq> []" "list_all is_digit d2"
    "d3 \<noteq> []" "list_all is_digit d3"
    by simp_all
  note ch = Color_constructor_rgb[OF h, of g0 b0 a0]
  show "r (Color_constructor (Str s) g0 b0 a0) = Some (to_double (real (digits_value 10 d1)))"
    "g (Color_constructor (Str s) g0 b0 a0) = Some (to_double (real (digits_value 10 d2)))"
    "b (Color_constructor (Str s) g0 b0 a0) = Some (to_double (real (digits_value 10 d3)))"
    by (rule ch)+
  show "r (Color_constructor (Str s) g0 b0 a0) = Some (Num (real (digits_value 10 d1)))"
    if "digits_value 10 d1 < 2 ^ 53"
    using that by (simp add: ch(1) to_double_nat)
  show "g (Color_constructor (Str s) g0 b0 a0) = Some (Num (real (digits_value 10 d2)))"
    if "digits_value 10 d2 < 2 ^ 53"
    using that by (simp add: ch(2) to_double_nat)
  show "b (Color_constructor (Str s) g0 b0 a0) = Some (Num (real (digits_value 10 d3)))"
    if "digits_value 10 d3 < 2 ^ 53"
    using that by (simp add: ch(3) to_double_nat)
  show "r (Color_constructor (Str s) g0 b0 a0) = Some Infinity"
    if "2 ^ 1024 \<le> digits_value 10 d1"
    using that by (simp only: ch(1) to_double_overflow_nat)
  show "g (Color_constructor (Str s) g0 b0 a0) = Some Infinity"
    if "2 ^ 1024 \<le> digits_value 10 d2"
    using that by (simp only: ch(2) to_double_overflow_nat)
  show "b (Color_constructor (Str s) g0 b0 a0) = Some Infinity"
    if "2 ^ 1024 \<le> digits_value 10 d3"
    using that by (simp only: ch(3) to_double_overflow_nat)
  assume "al = None"
  with ch(4) show "a (Color_constructor (Str s) g0 b0 a0) = Some (Num 1)" by simp
qed

theorem Color_constructor_recognized_witness:
  "(\<exists>n1 n2 n3 :: nat. n1 \<le> 255 \<and> n2 \<le> 255 \<and> n3 \<le> 255 \<and>
      r (Color_constructor (Str ''#ff0000'') None None None) = Some (Num (real n1)) \<and>
      g (Color_constructor (Str ''#ff0000'') None None None) = Some (Num (real n2)) \<and>
      b (Color_constructor (Str ''#ff0000'') None None None) = Some (Num (real n3))) \<and>
   r (Color_constructor (Str ''rgb(10, 20, 30)'') None None None) = Some (Num 10) \<and>
   g (Color_constructor (Str ''rgb(10, 20, 30)'') None None None) = Some (Num 20) \<and>
   b (Color_constructor (Str ''rgb(10, 20, 30)'') None None None) = Some (Num 30) \<and>
   a (Color_constructor (Str ''rgb(10, 20, 30)'') None None None) = Some (Num 1)"
proof -
  have hex: "length ''ff0000'' = 6 \<and> list_all (is_radix_digit 16) ''ff0000''"
    by (simp add: is_radix_digit_def digit_value_def)
  have rgb: "indexOf ''rgb'' (trim ''rgb(10, 20, 30)'') = 0 \<and>
      RGB_COLOR_REGEX_exec (trim ''rgb(10, 20, 30)'') = Some (''10'', ''20'', ''30'', None)"
    by (simp add: trim_def is_space_def indexOf_def match_here_def greedy_def is_digit_def
        alpha_group_def)
  have val: "digits_value 10 ''10'' = 10" "digits_value 10 ''20'' = 20" "digits_value 10 ''30'' = 30"
    by (simp_all add: digits_value_def digit_value_def)
  note inst = Color_constructor_recognized[where hs = "''ff0000''" and s = "''rgb(10, 20, 30)''"
        and ?d1.0 = "''10''" and ?d2.0 = "''20''" and ?d3.0 = "''30''" and al = None
        and ?g0.0 = None and ?b0.0 = None and ?a0.0 = None]
  have small: "digits_value 10 ''10'' < 2 ^ 53" "digits_value 10 ''20'' < 2 ^ 53"
    "digits_value 10 ''30'' < 2 ^ 53"
    by (simp_all add: val)
  from inst hex have first: "\<exists>n1 n2 n3 :: nat. n1 \<le> 255 \<and> n2 \<le> 255 \<and> n3 \<le> 255 \<and>
      r (Color_constructor (Str ''#ff0000'') None None None) = Some (Num (real n1)) \<and>
      g (Color_constructor (Str ''#ff0000'') None None None) = Some (Num (real n2)) \<and>
      b (Color_constructor (Str ''#ff0000'') None None None) = Some (Num (real n3))"
    by blast
  from inst rgb small
  have "r (Color_constructor (Str ''rgb(10, 20, 30)'') None None None) =
          Some (Num (real (digits_value 10 ''10'')))"
    "g (Color_constructor (Str ''rgb(10, 20, 30)'') None None None) =
          Some (Num (real (digits_value 10 ''20'')))"
    "b (Color_constructor (Str ''rgb(10, 20, 30)'') None None None) =
          Some (Num (real (digits_value 10 ''30'')))"
    "a (Color_constructor (Str ''rgb(10, 20, 30)'') None None None) = Some (Num 1)"
    by blast+
  then show ?thesis using first by (simp only: val) simp
qed

text \<open>Beyond \<open>2 ^ 53\<close> the channel is the nearest double, not the integer written:
  \<open>2 ^ 53 + 1\<close> lies halfway between two doubles and goes to the even one.\<close>

lemma Color_constructor_rounds:
  "r (Color_constructor (Str ''rgb(9007199254740993, 0, 0)'') None None None) =
     Some (Num 9007199254740992)"
  by (simp add: Color_constructor_def trim_def is_space_def indexOf_def Color_unset_def
      match_here_def greedy_def is_digit_def alpha_group_def parseInt_def is_radix_digit_def
      digit_value_def digits_value_def to_double_tie)

text \<open>The hexadecimal form assigns the three colour channels only: the alpha channel of
  the new object stays \<^verbatim>\<open>undefined\<close>.\<close>

lemma Color_constructor_hex_alpha:
  "Color_constructor (Str ''#ff0000'') None None None =
     \<lparr>r = Some (Num 255), g = Some (Num 0), b = Some (Num 0), a = None\<rparr>"
  by (simp add: Color_constructor_def trim_def is_space_def indexOf_def Color_unset_def Let_def
      substr_def substr_from_def parseInt_def is_radix_digit_def digit_value_def digits_value_def
      to_double_numeral)

text \<open>
  Claim C10. An alpha argument of 0 given to the constructor with numeric channels, or to
  \<^verbatim>\<open>setRGB\<close>, is stored as 1: the default for a missing alpha is taken for every falsy
  alpha (0, NaN, \<^verbatim>\<open>undefined\<close>), so neither operation can store a fully transparent
  alpha.
\<close>

theorem alpha_zero_becomes_one:
  "a (Color_constructor (Chan v) g0 b0 (Some (Num 0))) = Some (Num 1) \<and>
   a (setRGB r0 g1 b1 (Some (Num 0)) this) = Some (Num 1) \<and>
   a (Color_constructor (Chan v) g0 b0 (Some NaN)) = Some (Num 1) \<and>
   a (setRGB r0 g1 b1 (Some NaN) this) = Some (Num 1) \<and>
   a (Color_constructor (Chan v) g0 b0 None) = Some (Num 1) \<and>
   a (setRGB r0 g1 b1 None this) = Some (Num 1)"
  by (simp add: Color_constructor_def setRGB_def or_default_def)

text \<open>An alpha that is not falsy is stored as it is.\<close>

lemma alpha_nonzero_kept:
  "q \<noteq> 0 \<Longrightarrow> a (setRGB r0 g1 b1 (Some (Num q)) this) = Some (Num q)"
  by (simp add: setRGB_def or_default_def)

end
